theory Spec2Isabelle
  imports Complex_Main "HOL-Library.Sublist"
begin

section \<open>Numbers and dictionaries of the Python source\<close>

text \<open>
  Python floats are read as real numbers: every constant of the source is a decimal
  fraction, and the operations used are addition, multiplication, comparison,
  \<^verbatim>\<open>min\<close>, \<^verbatim>\<open>max\<close> and \<^verbatim>\<open>round\<close>.
  Python's \<^verbatim>\<open>round(x, n)\<close> rounds half to even.
\<close>

definition py_round0 :: "real \<Rightarrow> real" where
  "py_round0 x =
     (let f = \<lfloor>x\<rfloor>; d = x - of_int f
      in if d < 1 / 2 then of_int f
         else if 1 / 2 < d then of_int (f + 1)
         else if even f then of_int f else of_int (f + 1))"

definition py_round :: "real \<Rightarrow> nat \<Rightarrow> real" where
  "py_round x n = py_round0 (x * 10 ^ n) / 10 ^ n"

text \<open>\<^verbatim>\<open>d.get(k, default)\<close> on a table given as a partial map.\<close>

definition dget :: "('k \<rightharpoonup> 'v) \<Rightarrow> 'k \<Rightarrow> 'v \<Rightarrow> 'v" where
  "dget m k d = (case m k of None \<Rightarrow> d | Some v \<Rightarrow> v)"

text \<open>\<^verbatim>\<open>d.get(k, default)\<close> on a typed field: \<open>None\<close> is the absent key.\<close>

definition oget :: "'v option \<Rightarrow> 'v \<Rightarrow> 'v" where
  "oget f d = (case f of None \<Rightarrow> d | Some v \<Rightarrow> v)"

text \<open>\<^verbatim>\<open>s.startswith(p)\<close>.\<close>

definition startswith :: "string \<Rightarrow> string \<Rightarrow> bool" where
  "startswith s p = (take (length p) s = p)"

section \<open>The data the estimation engine reads\<close>

text \<open>
  The engine receives dictionaries. Each key the engine reads becomes a field;
  \<open>None\<close> stands for a key that is absent (for \<open>surface_batie\<close>,
  \<open>annee_construction\<close> and \<open>source\<close> of the cadastre also for the value
  \<^verbatim>\<open>None\<close>, which \<^verbatim>\<open>get\<close> returns for an absent key as well).
\<close>

record cadastre =
  cad_surface_terrain :: "real option"
  cad_surface_batie :: "real option"
  cad_annee_construction :: "int option"
  cad_source :: "string option"

record dvf =
  dvf_prix_m2_moyen :: "real option"
  dvf_prix_m2_median :: "real option"
  dvf_ecart_type :: "real option"
  dvf_nb_transactions :: "int option"
  dvf_source :: "string option"

text \<open>
  The energy record is a dictionary whose emptiness matters
  (\<^verbatim>\<open>if dpe:\<close> is false on \<^verbatim>\<open>{}\<close>, while
  \<^verbatim>\<open>dpe is not None\<close> is true), so it stays a dictionary: an association
  list from keys to values.
\<close>

datatype dval = DNone | DStr string | DNum real | DBool bool

type_synonym dpe = "(string \<times> dval) list"

definition dpe_get :: "dpe \<Rightarrow> string \<Rightarrow> dval" where
  "dpe_get d k = (case map_of d k of None \<Rightarrow> DNone | Some v \<Rightarrow> v)"

fun truthy :: "dval \<Rightarrow> bool" where
  "truthy DNone = False"
| "truthy (DStr s) = (s \<noteq> [])"
| "truthy (DNum r) = (r \<noteq> 0)"
| "truthy (DBool b) = b"

text \<open>\<^verbatim>\<open>if dpe:\<close> on an optional dictionary.\<close>

fun dpe_truthy :: "dpe option \<Rightarrow> bool" where
  "dpe_truthy None = False"
| "dpe_truthy (Some d) = (d \<noteq> [])"

text \<open>\<^verbatim>\<open>dpe and dpe.get("classe_energie")\<close> read as a condition.\<close>

fun dpe_classe_known :: "dpe option \<Rightarrow> bool" where
  "dpe_classe_known None = False"
| "dpe_classe_known (Some d) = (d \<noteq> [] \<and> truthy (dpe_get d ''classe_energie''))"

section \<open>Visual assessments\<close>

record color =
  color_name :: "string option"
  color_ratio :: "real option"
  color_value :: "real option"

record details =
  methode :: "string option"
  raison :: "string option"
  resolution_image :: "(nat \<times> nat) option"
  couleurs_dominantes :: "color list"
  score_texture :: "real option"
  lignes_detectees :: "nat option"
  detections_brutes :: "nat option"
  nombre_photos_analysees :: "nat option"
  analyses_individuelles :: "real list"

record analysis =
  type_bien :: "string option"
  type_bien_label :: "string option"
  etat_exterieur :: "string option"
  etat_label :: "string option"
  coefficient_etat :: "real option"
  nombre_etages_estime :: "int option"
  surface_estimee_vision :: "real option"
  score_confiance :: "real option"
  details :: "details option"
  date_analyse :: "string option"

section \<open>EstimationEngine\<close>

definition COEF_ETAGES :: "int \<rightharpoonup> real" where
  "COEF_ETAGES = map_of [(1, 1), (2, 105 / 100), (3, 103 / 100), (4, 102 / 100), (5, 1)]"

definition RATIO_SURFACE :: "string \<rightharpoonup> real" where
  "RATIO_SURFACE = map_of
     [(''maison'', 35 / 100), (''appartement'', 1), (''immeuble'', 60 / 100),
      (''terrain'', 0), (''local_commercial'', 50 / 100), (''inconnu'', 30 / 100)]"

definition COEF_SAISON :: "nat \<rightharpoonup> real" where
  "COEF_SAISON = map_of
     [(1, 98 / 100), (2, 99 / 100), (3, 101 / 100), (4, 102 / 100), (5, 103 / 100),
      (6, 102 / 100), (7, 1), (8, 99 / 100), (9, 102 / 100), (10, 101 / 100),
      (11, 99 / 100), (12, 98 / 100)]"

definition default_surfaces :: "string \<rightharpoonup> real" where
  "default_surfaces = map_of
     [(''maison'', 100), (''appartement'', 70), (''immeuble'', 500),
      (''terrain'', 0), (''local_commercial'', 150), (''inconnu'', 80)]"

definition calculate_surface_habitable :: "real \<Rightarrow> real option \<Rightarrow> string \<Rightarrow> int \<Rightarrow> real" where
  "calculate_surface_habitable surface_terrain surface_batie type_bien' etages =
     (case (case surface_batie of None \<Rightarrow> None
            | Some sb \<Rightarrow> if sb \<noteq> 0 \<and> 0 < sb then Some sb else None) of
        Some sb \<Rightarrow> sb * (85 / 100) * of_int (max 1 etages)
      | None \<Rightarrow>
          if 0 < surface_terrain then
            (let ratio = dget RATIO_SURFACE type_bien' (30 / 100);
                 surface_base = surface_terrain * ratio
             in if type_bien' = ''maison'' then surface_base * of_int etages * (8 / 10)
                else surface_base)
          else dget default_surfaces type_bien' 80)"

definition dpe_coefficients :: "string \<rightharpoonup> real" where
  "dpe_coefficients = map_of
     [(''A'', 108 / 100), (''B'', 105 / 100), (''C'', 102 / 100), (''D'', 1),
      (''E'', 95 / 100), (''F'', 88 / 100), (''G'', 82 / 100)]"

fun get_dpe_coefficient :: "dval \<Rightarrow> real" where
  "get_dpe_coefficient (DStr c) = dget dpe_coefficients c 1"
| "get_dpe_coefficient v = 1"

definition calculate_margin :: "real \<Rightarrow> int \<Rightarrow> real \<Rightarrow> bool \<Rightarrow> real" where
  "calculate_margin ecart_type nb_transactions vision_confidence has_dpe =
     (let marge = 15 / 100;
          marge = (if 20 \<le> nb_transactions then marge - 3 / 100
                   else if 10 \<le> nb_transactions then marge - 2 / 100
                   else if nb_transactions = 0 then marge + 5 / 100
                   else marge);
          marge = (if 80 \<le> vision_confidence then marge - 2 / 100
                   else if vision_confidence < 50 then marge + 3 / 100
                   else marge);
          marge = (if has_dpe then marge - 2 / 100 else marge)
      in max (8 / 100) (min (30 / 100) marge))"

text \<open>
  The score of \<^verbatim>\<open>_calculate_confidence\<close> before its last line clamps it.
\<close>

definition confidence_score :: "dvf \<Rightarrow> analysis \<Rightarrow> cadastre \<Rightarrow> dpe option \<Rightarrow> bool \<Rightarrow> real" where
  "confidence_score dvf' vision cadastre' dpe' multi_photo =
     (let score = 40;
          nb_trans = oget (dvf_nb_transactions dvf') 0;
          score = (if 20 \<le> nb_trans then score + 20
                   else if 10 \<le> nb_trans then score + 15
                   else if 5 \<le> nb_trans then score + 10
                   else if 0 < nb_trans then score + 5
                   else score);
          vision_conf = oget (score_confiance vision) 50;
          score = score + (vision_conf - 50) * (2 / 10);
          score = (if 0 < oget (cad_surface_terrain cadastre') 0 then score + 5 else score);
          score = (if oget (cad_surface_batie cadastre') 0 \<noteq> 0 then score + 5 else score);
          score = (if oget (cad_annee_construction cadastre') 0 \<noteq> 0 then score + 3 else score);
          score = (if dpe_classe_known dpe' then score + 7 else score);
          score = (if multi_photo then score + 5 else score);
          score = (if startswith (oget (dvf_source dvf') '''') ''Estimation''
                   then score - 10 else score);
          score = (if cad_source cadastre' = Some ''fallback'' then score - 10 else score)
      in score)"

definition calculate_confidence :: "dvf \<Rightarrow> analysis \<Rightarrow> cadastre \<Rightarrow> dpe option \<Rightarrow> bool \<Rightarrow> real" where
  "calculate_confidence dvf' vision cadastre' dpe' multi_photo =
     max 15 (min 95 (confidence_score dvf' vision cadastre' dpe' multi_photo))"

definition assess_data_quality :: "cadastre \<Rightarrow> dvf \<Rightarrow> analysis \<Rightarrow> dpe option \<Rightarrow> string" where
  "assess_data_quality cadastre' dvf' vision dpe' =
     (let points = (0::int);
          points = (if 10 \<le> oget (dvf_nb_transactions dvf') 0 then points + 3
                    else if 0 < oget (dvf_nb_transactions dvf') 0 then points + 1
                    else points);
          points = (if 0 < oget (cad_surface_terrain cadastre') 0 then points + 2 else points);
          points = (if cad_source cadastre' \<noteq> Some ''fallback'' then points + 1 else points);
          points = (if 70 \<le> oget (score_confiance vision) 0 then points + 2
                    else if 50 \<le> oget (score_confiance vision) 0 then points + 1
                    else points);
          points = (if dpe_classe_known dpe' then points + 2 else points);
          ratio = (of_int points :: real) / 10
      in if 8 / 10 \<le> ratio then ''Excellente''
         else if 6 / 10 \<le> ratio then ''Bonne''
         else if 4 / 10 \<le> ratio then ''Moyenne''
         else if 2 / 10 \<le> ratio then ''Limit'' @ [CHR 0xC3, CHR 0xA9] @ ''e''
         else ''Faible'')"

record details_calcul =
  dc_coefficient_etat :: real
  dc_coefficient_dpe :: real
  dc_coefficient_etages :: real
  dc_coefficient_saison :: real
  dc_coefficient_total :: real
  dc_marge_erreur_pct :: real

record estimation =
  surface_terrain :: real
  surface_habitable_estimee :: real
  prix_m2_secteur :: real
  prix_m2_ajuste :: real
  prix_total_estime :: real
  prix_bas :: real
  prix_haut :: real
  confiance :: real
  qualite_donnees :: string
  details_calcul :: details_calcul

text \<open>
  \<^verbatim>\<open>calculate\<close>. \<open>mois_actuel\<close> is \<^verbatim>\<open>datetime.now().month\<close>. The result
  keeps the figures and the quality label of the dictionary the source returns; the
  formatted copies of the inputs, the warning texts, the list of sources and the time
  stamp are left out.
\<close>

definition calculate ::
  "nat \<Rightarrow> cadastre \<Rightarrow> dvf \<Rightarrow> analysis \<Rightarrow> dpe option \<Rightarrow> bool \<Rightarrow> estimation" where
  "calculate mois_actuel cadastre' dvf' vision dpe' multi_photo_boost =
     (let surface_terrain' = oget (cad_surface_terrain cadastre') 0;
          surface_batie_cadastre = cad_surface_batie cadastre';
          prix_m2_base = oget (dvf_prix_m2_moyen dvf') 3000;
          type_bien' = oget (type_bien vision) ''maison'';
          coef_etat = oget (coefficient_etat vision) 1;
          etages = oget (nombre_etages_estime vision) 1;
          surface_habitable =
            calculate_surface_habitable surface_terrain' surface_batie_cadastre type_bien' etages;
          coef_total = coef_etat;
          coef_total = coef_total * dget COEF_ETAGES (min etages 5) 1;
          coef_total = coef_total * dget COEF_SAISON mois_actuel 1;
          coef_dpe =
            (case dpe' of None \<Rightarrow> 1
             | Some d \<Rightarrow>
                 if d \<noteq> [] then get_dpe_coefficient (dpe_get d ''classe_energie'') else 1);
          coef_total = (if dpe_truthy dpe' then coef_total * coef_dpe else coef_total);
          prix_m2_aj = prix_m2_base * coef_total;
          prix_total = surface_habitable * prix_m2_aj;
          ecart_type = oget (dvf_ecart_type dvf') (prix_m2_base * (15 / 100));
          marge_erreur =
            calculate_margin ecart_type (oget (dvf_nb_transactions dvf') 0)
              (oget (score_confiance vision) 50) (dpe' \<noteq> None);
          prix_bas' = prix_total * (1 - marge_erreur);
          prix_haut' = prix_total * (1 + marge_erreur);
          confiance' = calculate_confidence dvf' vision cadastre' dpe' multi_photo_boost;
          qualite = assess_data_quality cadastre' dvf' vision dpe'
      in \<lparr> surface_terrain = surface_terrain',
           surface_habitable_estimee = py_round surface_habitable 2,
           prix_m2_secteur = py_round prix_m2_base 2,
           prix_m2_ajuste = py_round prix_m2_aj 2,
           prix_total_estime = py_round prix_total 0,
           prix_bas = py_round prix_bas' 0,
           prix_haut = py_round prix_haut' 0,
           confiance = py_round confiance' 1,
           qualite_donnees = qualite,
           details_calcul =
             \<lparr> dc_coefficient_etat = coef_etat,
               dc_coefficient_dpe = coef_dpe,
               dc_coefficient_etages = dget COEF_ETAGES (min etages 5) 1,
               dc_coefficient_saison = dget COEF_SAISON mois_actuel 1,
               dc_coefficient_total = py_round coef_total 3,
               dc_marge_erreur_pct = py_round (marge_erreur * 100) 1 \<rparr> \<rparr>)"

section \<open>Exceptions\<close>

text \<open>
  The exceptions the modelled code can meet; all are subclasses of
  \<^verbatim>\<open>Exception\<close>. A computation that may raise returns \<open>exn + 'a\<close>, with
  \<open>Inl\<close> for the exception raised.
\<close>

datatype exn =
    TimeoutException | ConnectError | JSONDecodeError | UnidentifiedImageError
  | AttributeError | TypeError | KeyError | IndexError | ValueError
  | ZeroDivisionError | OverflowError

definition bind_exn :: "exn + 'a \<Rightarrow> ('a \<Rightarrow> exn + 'b) \<Rightarrow> exn + 'b" where
  "bind_exn m f = (case m of Inl e \<Rightarrow> Inl e | Inr v \<Rightarrow> f v)"

section \<open>VisionAnalyzer\<close>

text \<open>
  Strings are byte lists; a character outside ASCII is written as its UTF-8 bytes.
\<close>

definition e_acute :: string where "e_acute = [CHR 0xC3, CHR 0xA9]"
definition E_acute :: string where "E_acute = [CHR 0xC3, CHR 0x89]"
definition e_grave :: string where "e_grave = [CHR 0xC3, CHR 0xA8]"
definition a_grave :: string where "a_grave = [CHR 0xC3, CHR 0xA0]"

definition PROPERTY_TYPES :: "string \<rightharpoonup> string" where
  "PROPERTY_TYPES = map_of
     [(''maison'', ''Maison individuelle''),
      (''appartement'', ''Appartement''),
      (''immeuble'', ''Immeuble collectif''),
      (''terrain'', ''Terrain nu''),
      (''local_commercial'', ''Local commercial''),
      (''inconnu'', ''Type ind'' @ e_acute @ ''termin'' @ e_acute)]"

record state_info =
  label :: string
  coef :: real

text \<open>The table keeps the order of the source: the fusion walks it from the top.\<close>

definition STATES :: "(string \<times> state_info) list" where
  "STATES =
     [(''neuf'', \<lparr>label = ''Neuf / R'' @ e_acute @ ''cent'', coef = 115 / 100\<rparr>),
      (''tres_bon'', \<lparr>label = ''Tr'' @ e_grave @ ''s bon '' @ e_acute @ ''tat'', coef = 110 / 100\<rparr>),
      (''bon'', \<lparr>label = ''Bon '' @ e_acute @ ''tat'', coef = 1\<rparr>),
      (''correct'', \<lparr>label = E_acute @ ''tat correct'', coef = 95 / 100\<rparr>),
      (''travaux_legers'',
         \<lparr>label = ''Travaux l'' @ e_acute @ ''gers '' @ a_grave @ '' pr'' @ e_acute @ ''voir'',
          coef = 85 / 100\<rparr>),
      (''renovation'',
         \<lparr>label = ''R'' @ e_acute @ ''novation n'' @ e_acute @ ''cessaire'', coef = 70 / 100\<rparr>),
      (''gros_travaux'', \<lparr>label = ''Gros travaux'', coef = 55 / 100\<rparr>)]"

definition no_details :: details where
  "no_details =
     \<lparr> methode = None, raison = None, resolution_image = None, couleurs_dominantes = [],
       score_texture = None, lignes_detectees = None, detections_brutes = None,
       nombre_photos_analysees = None, analyses_individuelles = [] \<rparr>"

text \<open>\<open>now\<close> is \<^verbatim>\<open>datetime.now().isoformat()\<close>.\<close>

definition get_fallback_analysis :: "string \<Rightarrow> analysis" where
  "get_fallback_analysis now =
     \<lparr> type_bien = Some ''inconnu'',
       type_bien_label = Some (''Type ind'' @ e_acute @ ''termin'' @ e_acute),
       etat_exterieur = Some ''correct'',
       etat_label = Some (E_acute @ ''tat standard (non d'' @ e_acute @ ''termin'' @ e_acute @ '')''),
       coefficient_etat = Some 1,
       nombre_etages_estime = Some 1,
       surface_estimee_vision = None,
       score_confiance = Some 30,
       details = Some (no_details\<lparr>methode := Some ''fallback'',
                                   raison := Some ''Analyse impossible''\<rparr>),
       date_analyse = Some now \<rparr>"

text \<open>
  \<^verbatim>\<open>next((c.get("value", 0) for c in colors if c.get("name") == "variance"), 0)\<close>
\<close>

fun variance_of :: "color list \<Rightarrow> real" where
  "variance_of [] = 0"
| "variance_of (c # cs) =
     (if color_name c = Some ''variance'' then oget (color_value c) 0 else variance_of cs)"

text \<open>
  \<^verbatim>\<open>VisionAnalyzer._calculate_confidence\<close>; of the image it reads the size only.
\<close>

definition vision_calculate_confidence :: "nat \<times> nat \<Rightarrow> color list \<Rightarrow> real \<Rightarrow> real" where
  "vision_calculate_confidence image_size colors texture_score =
     (let confidence = 50;
          min_dim = min (fst image_size) (snd image_size);
          confidence = (if 1000 \<le> min_dim then confidence + 15
                        else if 500 \<le> min_dim then confidence + 10
                        else if min_dim < 200 then confidence - 20
                        else confidence);
          variance = variance_of colors;
          confidence = (if 500 < variance \<and> variance < 5000 then confidence + 10
                        else confidence);
          confidence = (if 10 < texture_score \<and> texture_score < 60 then confidence + 10
                        else confidence)
      in min 95 (max 20 confidence))"

subsection \<open>analyze\<close>

type_synonym bytes = "char list"

record image =
  mode :: string
  size :: "nat \<times> nat"

text \<open>
  What \<^verbatim>\<open>analyze\<close> calls: the decoder and the colour conversion of the
  imaging library, and the two analyses of a decoded image (the pixel statistics are
  computed by the array library). Each may raise. \<^verbatim>\<open>analyze\<close> is modelled for
  every behaviour of them.
\<close>

record vision_env =
  Image_open :: "bytes \<Rightarrow> exn + image"
  convert_RGB :: "image \<Rightarrow> exn + image"
  analyze_with_model :: "image \<Rightarrow> exn + analysis"
  analyze_heuristic :: "image \<Rightarrow> exn + analysis"

record analyzer =
  use_ml :: bool
  model :: "unit option"

definition analyze :: "vision_env \<Rightarrow> analyzer \<Rightarrow> string \<Rightarrow> bytes \<Rightarrow> exn + analysis" where
  "analyze env self now image_bytes =
     (case
        bind_exn (Image_open env image_bytes) (\<lambda>image.
        bind_exn (if mode image \<noteq> ''RGB'' then convert_RGB env image else Inr image) (\<lambda>image.
          if use_ml self \<and> model self \<noteq> None then analyze_with_model env image
          else analyze_heuristic env image))
      of Inl e \<Rightarrow> Inr (get_fallback_analysis now)
       | Inr r \<Rightarrow> Inr r)"

subsection \<open>merge_analyses\<close>

text \<open>
  \<^verbatim>\<open>max(iterable, key=f)\<close> keeps the first element whose key is greatest, and
  raises on an empty iterable.
\<close>

fun py_max_key :: "('a \<Rightarrow> nat) \<Rightarrow> 'a list \<Rightarrow> exn + 'a" where
  "py_max_key f [] = Inl ValueError"
| "py_max_key f (x # xs) = Inr (fold (\<lambda>y m. if f m < f y then y else m) xs x)"

fun py_max :: "'a::linorder list \<Rightarrow> exn + 'a" where
  "py_max [] = Inl ValueError"
| "py_max (x # xs) = Inr (fold (\<lambda>y m. if m < y then y else m) xs x)"

text \<open>
  \<^verbatim>\<open>set(types)\<close> is iterated in the order of its hash table, which Python fixes
  per process and not by the order of insertion. \<open>slot types t\<close> is the position of
  \<open>t\<close> in the table built from \<open>types\<close>; the model holds for every such
  assignment.
\<close>

definition set_iter :: "(string list \<Rightarrow> string \<Rightarrow> nat) \<Rightarrow> string list \<Rightarrow> string list" where
  "set_iter slot types = sort_key (slot types) (remdups types)"

text \<open>The loop over \<^verbatim>\<open>STATES.items()\<close> with its \<^verbatim>\<open>break\<close>.\<close>

fun find_etat :: "real \<Rightarrow> (string \<times> state_info) list \<Rightarrow> string \<Rightarrow> string" where
  "find_etat avg_coef [] etat = etat"
| "find_etat avg_coef ((state_key, info) # rest) etat =
     (if \<bar>coef info - avg_coef\<bar> < 5 / 100 then state_key
      else find_etat avg_coef rest etat)"

definition avg_coef_of :: "analysis list \<Rightarrow> real" where
  "avg_coef_of analyses =
     (let coefs = map (\<lambda>a. oget (coefficient_etat a) 1) analyses
      in sum_list coefs / of_nat (length coefs))"

fun merge_analyses ::
  "(string list \<Rightarrow> string \<Rightarrow> nat) \<Rightarrow> string \<Rightarrow> analysis list \<Rightarrow> exn + analysis" where
  "merge_analyses slot now [] = Inr (get_fallback_analysis now)"
| "merge_analyses slot now [a] = Inr a"
| "merge_analyses slot now (a # b # rest) =
     (let analyses = a # b # rest;
          types = map (\<lambda>a. oget (type_bien a) ''inconnu'') analyses
      in bind_exn (py_max_key (count_list types) (set_iter slot types)) (\<lambda>type_bien'.
     (let avg_coef = avg_coef_of analyses;
          etat = find_etat avg_coef STATES ''bon''
      in bind_exn (py_max (map (\<lambda>a. oget (nombre_etages_estime a) 1) analyses)) (\<lambda>etages.
         bind_exn (py_max (map (\<lambda>a. oget (score_confiance a) 50) analyses)) (\<lambda>base_confidence.
     (let boosted_confidence = min 95 (base_confidence + of_nat (length analyses) * 5)
      in Inr \<lparr> type_bien = Some type_bien',
               type_bien_label = Some (dget PROPERTY_TYPES type_bien' ''Inconnu''),
               etat_exterieur = Some etat,
               etat_label =
                 Some (case map_of STATES etat of
                         None \<Rightarrow> ''Non d'' @ e_acute @ ''termin'' @ e_acute
                       | Some info \<Rightarrow> label info),
               coefficient_etat = Some avg_coef,
               nombre_etages_estime = Some etages,
               surface_estimee_vision = None,
               score_confiance = Some boosted_confidence,
               details =
                 Some (no_details\<lparr>
                   nombre_photos_analysees := Some (length analyses),
                   methode := Some ''fusion_multi_photos'',
                   analyses_individuelles :=
                     map (\<lambda>a. oget (score_confiance a) 0) analyses\<rparr>),
               date_analyse = Some now \<rparr>))))))"

section \<open>Properties of the estimation engine\<close>

subsection \<open>Rounding keeps the order\<close>

lemma py_round0_mono: "x \<le> y \<Longrightarrow> py_round0 x \<le> py_round0 y"
proof -
  assume xy: "x \<le> y"
  have fxy: "\<lfloor>x\<rfloor> \<le> \<lfloor>y\<rfloor>" using xy by (rule floor_mono)
  have lo: "\<And>z. of_int \<lfloor>z\<rfloor> \<le> py_round0 z"
    by (simp add: py_round0_def Let_def)
  have hi: "\<And>z. py_round0 z \<le> of_int \<lfloor>z\<rfloor> + 1"
    by (simp add: py_round0_def Let_def)
  show ?thesis
  proof (cases "\<lfloor>x\<rfloor> = \<lfloor>y\<rfloor>")
    case True
    then show ?thesis using xy by (auto simp: py_round0_def Let_def)
  next
    case False
    then have "\<lfloor>x\<rfloor> + 1 \<le> \<lfloor>y\<rfloor>" using fxy by linarith
    then have "(of_int \<lfloor>x\<rfloor> :: real) + 1 \<le> of_int \<lfloor>y\<rfloor>" by linarith
    then show ?thesis using lo[of y] hi[of x] by linarith
  qed
qed

lemma py_round_mono: "x \<le> y \<Longrightarrow> py_round x n \<le> py_round y n"
  by (simp add: py_round_def py_round0_mono divide_right_mono)

subsection \<open>The tables hold positive coefficients\<close>

lemma calculate_margin_range:
  "8 / 100 \<le> calculate_margin e n v h \<and> calculate_margin e n v h \<le> 30 / 100"
  by (simp add: calculate_margin_def Let_def)

lemma COEF_ETAGES_pos: "0 < dget COEF_ETAGES k 1"
  by (simp add: dget_def COEF_ETAGES_def)

lemma COEF_SAISON_pos: "0 < dget COEF_SAISON k 1"
  by (simp add: dget_def COEF_SAISON_def)

lemma get_dpe_coefficient_pos: "0 < get_dpe_coefficient v"
  by (cases v) (simp_all add: dget_def dpe_coefficients_def)

subsection \<open>Bounds of the margin and of the two confidence scores\<close>

text \<open>
  C2. Whatever its arguments, \<^verbatim>\<open>_calculate_margin\<close> returns a value between 0.08
  and 0.30, the engine's \<^verbatim>\<open>_calculate_confidence\<close> a value between 15 and 95,
  and the analyzer's \<^verbatim>\<open>_calculate_confidence\<close> a value between 20 and 95, for
  every image size, colour list and texture score.
\<close>

theorem margin_and_confidence_bounds:
  "8 / 100 \<le> calculate_margin e n vc h \<and> calculate_margin e n vc h \<le> 30 / 100
   \<and> 15 \<le> calculate_confidence d v c dp mp \<and> calculate_confidence d v c dp mp \<le> 95
   \<and> 20 \<le> vision_calculate_confidence sz cols t
   \<and> vision_calculate_confidence sz cols t \<le> 95"
  by (simp add: calculate_margin_def calculate_confidence_def
      vision_calculate_confidence_def Let_def)

end
